theory Spec2Isabelle
  imports Main "HOL-Library.Sublist"
begin

section \<open>Python strings\<close>

text \<open>
  A Python \<open>str\<close> is a sequence of Unicode code points, and \<open>len\<close> counts code
  points. The texts of \<open>app.py\<close> hold symbols beyond one byte, so a string is modelled as
  the list of its code points; \<open>lit\<close> turns an ASCII literal into such a list. The
  operator \<open>in\<close> on two strings is the contiguous-sublist test \<^const>\<open>sublist\<close>.
\<close>

type_synonym pystr = "nat list"

definition lit :: "string \<Rightarrow> pystr" where
  "lit s = map of_char s"

text \<open>The code points for which \<open>str.isspace\<close> holds; \<open>str.strip()\<close> removes them at both ends.\<close>

definition py_isspace :: "nat \<Rightarrow> bool" where
  "py_isspace c = (c \<in> {9..13} \<union> {28..32} \<union> {133, 160, 5760} \<union> {8192..8202}
       \<union> {8232, 8233, 8239, 8287, 12288})"

definition strip :: "pystr \<Rightarrow> pystr" where
  "strip s = rev (dropWhile py_isspace (rev (dropWhile py_isspace s)))"

text \<open>Truth value of an \<open>Optional[str]\<close>: \<open>None\<close> and the empty string are false.\<close>

definition truthy :: "pystr option \<Rightarrow> bool" where
  "truthy x = (case x of None \<Rightarrow> False | Some s \<Rightarrow> s \<noteq> [])"

text \<open>Decimal rendering of a length inside an f-string.\<close>

fun str_of_nat :: "nat \<Rightarrow> pystr" where
  "str_of_nat n = (if n < 10 then [48 + n] else str_of_nat (n div 10) @ [48 + n mod 10])"

declare str_of_nat.simps [simp del]

section \<open>Document extraction\<close>

text \<open>
  What \<open>pdfplumber\<close> does with the uploaded file is an input of the model: opening
  either raises (with the text of the exception) or yields the pages, and
  \<open>page.extract_text()\<close> returns a string, returns \<open>None\<close>, or raises.
\<close>

datatype page = PageText "pystr option" | PageRaises pystr

datatype uploaded_file = OpenRaises pystr | Pdf "page list"

text \<open>The loop of lines 31-35; \<open>Inl e\<close> is an exception leaving the loop.\<close>

fun read_pages :: "page list \<Rightarrow> pystr \<Rightarrow> pystr + pystr" where
  "read_pages [] full_text = Inr full_text"
| "read_pages (PageRaises e # pages) full_text = Inl e"
| "read_pages (PageText page_text # pages) full_text =
     (case page_text of
        None \<Rightarrow> read_pages pages full_text
      | Some t \<Rightarrow>
          if t \<noteq> [] then read_pages pages (full_text @ t @ [10, 10])
          else read_pages pages full_text)"

definition error_reading_pdf :: "pystr \<Rightarrow> pystr" where
  "error_reading_pdf e = lit ''Error reading PDF: '' @ e @ lit ''. Is it a valid PDF file?''"

definition no_text_extracted :: pystr where
  "no_text_extracted = lit ''No text could be extracted from this PDF.''"

definition extract_text_from_pdf :: "uploaded_file option \<Rightarrow> pystr option" where
  "extract_text_from_pdf uploaded_file =
     (case uploaded_file of
        None \<Rightarrow> None
      | Some (OpenRaises e) \<Rightarrow> Some (error_reading_pdf e)
      | Some (Pdf pages) \<Rightarrow>
          (case read_pages pages [] of
             Inl e \<Rightarrow> Some (error_reading_pdf e)
           | Inr full_text \<Rightarrow>
               Some (if full_text \<noteq> [] then strip full_text else no_text_extracted)))"

section \<open>Session state and effects\<close>

datatype role = User | Assistant

type_synonym message = "role \<times> pystr"

text \<open>
  The calls a script run makes on the page and on the chat service, in order.
  \<open>SendMessage h p\<close> is \<open>chat_session.send_message(p)\<close> on the chat object \<open>h\<close>.
  The fixed furniture of the page (title, headers, the widgets themselves, spinners) holds
  no state and is left out.
\<close>

datatype effect =
    SidebarError pystr
  | SidebarSuccess pystr
  | SidebarExpanderText pystr
  | SidebarInfo pystr
  | StInfo pystr
  | StWarning pystr
  | StError pystr
  | StSuccess pystr
  | ChatMessage role pystr
  | SendMessage nat pystr

text \<open>
  \<open>st.session_state\<close> after the initialisation of lines 42-60, together with the number
  of chat objects that \<open>model.start_chat\<close> has created so far: a chat object is
  identified by its creation index, so two chat objects are the same object exactly when
  their indices are equal.
\<close>

record world =
  chat_session :: nat
  messages :: "message list"
  pdf_text_context :: "pystr option"
  chats_started :: nat
  trace :: "effect list"

definition initial_world :: world where
  "initial_world =
     \<lparr>chat_session = 0, messages = [], pdf_text_context = None, chats_started = 1, trace = []\<rparr>"

definition emit :: "effect \<Rightarrow> world \<Rightarrow> world" where
  "emit e w = w\<lparr>trace := trace w @ [e]\<rparr>"

text \<open>\<open>st.session_state.chat_session = st.session_state.model.start_chat(history=[])\<close>\<close>

definition new_chat_session :: "world \<Rightarrow> world" where
  "new_chat_session w = w\<lparr>chat_session := chats_started w, chats_started := Suc (chats_started w)\<rparr>"

section \<open>Handlers\<close>

definition pdf_processed_msg :: pystr where
  "pdf_processed_msg = [9989, 32] @ lit ''PDF processed! You can now ask questions about its content.''"

definition context_loaded_msg :: pystr where
  "context_loaded_msg = [8505, 65039, 32] @
     lit ''PDF context is loaded. Your questions will be answered based on the uploaded document.''"

definition truncation_warning :: pystr where
  "truncation_warning = [9888, 65039, 32] @
     lit ''The PDF content combined with your question is very long. '' @
     lit ''The answer might be truncated or an error might occur. '' @
     lit ''Consider asking about specific parts or using a smaller PDF.''"

text \<open>Lines 79-87: the branch of the Process PDF handler taken when the text is accepted.\<close>

definition process_pdf_success :: "pystr \<Rightarrow> world \<Rightarrow> world" where
  "process_pdf_success extracted_text w =
     (let w1 = w\<lparr>pdf_text_context := Some extracted_text\<rparr>;
          w2 = emit (SidebarSuccess pdf_processed_msg) w1;
          w3 = emit (SidebarExpanderText (take 500 extracted_text @ lit ''...'')) w2;
          w4 = emit (SidebarInfo (lit ''Total characters extracted: '' @
                                   str_of_nat (length extracted_text))) w3;
          w5 = w4\<lparr>messages := []\<rparr>
      in new_chat_session w5)"

text \<open>Lines 94-97: the Clear PDF Context and Chat handler.\<close>

definition clear_pdf_context_and_chat :: "world \<Rightarrow> world" where
  "clear_pdf_context_and_chat w =
     (let w1 = w\<lparr>pdf_text_context := None\<rparr>;
          w2 = w1\<lparr>messages := []\<rparr>;
          w3 = new_chat_session w2
      in emit (SidebarInfo (lit ''PDF context and chat cleared.'')) w3)"

text \<open>Lines 159-162: the Clear Chat Only handler.\<close>

definition clear_chat_only :: "world \<Rightarrow> world" where
  "clear_chat_only w =
     (let w1 = new_chat_session w;
          w2 = w1\<lparr>messages := []\<rparr>
      in emit (StSuccess (lit ''Chat messages cleared! PDF context remains.'')) w2)"

text \<open>Lines 118-128: the prompt sent to the chat service.\<close>

definition final_prompt :: "pystr option \<Rightarrow> pystr \<Rightarrow> pystr" where
  "final_prompt context prompt =
     (case context of
        None \<Rightarrow> prompt
      | Some text \<Rightarrow>
          if text \<noteq> [] then
            lit ''Based on the following bank statement text, please answer the user's question.''
              @ [10, 10]
              @ lit ''--- BANK STATEMENT TEXT START ---'' @ [10]
              @ text @ [10]
              @ lit ''--- BANK STATEMENT TEXT END ---'' @ [10, 10]
              @ lit ''User's Question: '' @ prompt
          else prompt)"

section \<open>The script\<close>

text \<open>
  Streamlit executes the script from top to bottom on every interaction. A run ends at the
  bottom of the script, at \<open>st.rerun()\<close>, or with an exception nobody catches. The
  widget values of the run and the behaviour of the chat service are inputs:
  \<open>send_message h p\<close> is \<open>Inr\<close> the text of the reply or \<open>Inl\<close> the text of the
  exception raised.
\<close>

datatype py_error = TypeError

datatype outcome = Finished world | Rerun world | Raised py_error world

fun world_of :: "outcome \<Rightarrow> world" where
  "world_of (Finished w) = w"
| "world_of (Rerun w) = w"
| "world_of (Raised e w) = w"

definition then_run :: "outcome \<Rightarrow> (world \<Rightarrow> outcome) \<Rightarrow> outcome" where
  "then_run r f = (case r of Finished w \<Rightarrow> f w | Rerun w \<Rightarrow> Rerun w | Raised e w \<Rightarrow> Raised e w)"

record widgets =
  uploaded_pdf :: "uploaded_file option"
  process_pdf_button :: bool
  clear_pdf_button :: bool
  chat_input :: "pystr option"
  clear_chat_button :: bool

type_synonym chat_service = "nat \<Rightarrow> pystr \<Rightarrow> pystr + pystr"

text \<open>Lines 71-88. The operator \<open>in\<close> on \<open>None\<close> raises \<open>TypeError\<close>.\<close>

definition process_pdf :: "widgets \<Rightarrow> world \<Rightarrow> outcome" where
  "process_pdf wd w =
     (if uploaded_pdf wd \<noteq> None \<and> process_pdf_button wd then
        (case extract_text_from_pdf (uploaded_pdf wd) of
           None \<Rightarrow> Raised TypeError w
         | Some extracted_text \<Rightarrow>
             if sublist (lit ''Error reading PDF'') extracted_text
                \<or> sublist (lit ''No text could be extracted'') extracted_text
             then Finished ((emit (SidebarError extracted_text) w)\<lparr>pdf_text_context := None\<rparr>)
             else Rerun (process_pdf_success extracted_text w))
      else Finished w)"

text \<open>Lines 91-98. The clear button exists only while a document is loaded.\<close>

definition pdf_context_panel :: "widgets \<Rightarrow> world \<Rightarrow> outcome" where
  "pdf_context_panel wd w =
     (if truthy (pdf_text_context w) then
        (let w1 = emit (StInfo context_loaded_msg) w
         in if clear_pdf_button wd then Rerun (clear_pdf_context_and_chat w1) else Finished w1)
      else Finished w)"

text \<open>Lines 102-104.\<close>

definition display_messages :: "world \<Rightarrow> outcome" where
  "display_messages w =
     Finished (w\<lparr>trace := trace w @ map (\<lambda>(r, c). ChatMessage r c) (messages w)\<rparr>)"

text \<open>Lines 107-151.\<close>

definition chat :: "chat_service \<Rightarrow> widgets \<Rightarrow> world \<Rightarrow> outcome" where
  "chat send_message wd w =
     (case chat_input wd of
        None \<Rightarrow> Finished w
      | Some prompt \<Rightarrow>
          if prompt = [] then Finished w
          else
            (let w1 = w\<lparr>messages := messages w @ [(User, prompt)]\<rparr>;
                 w2 = emit (ChatMessage User prompt) w1;
                 p = final_prompt (pdf_text_context w2) prompt;
                 w3 = (if truthy (pdf_text_context w2) \<and> length p > 28000
                       then emit (StWarning truncation_warning) w2 else w2);
                 w4 = emit (SendMessage (chat_session w3) p) w3
             in case send_message (chat_session w3) p of
                  Inr bot_reply \<Rightarrow>
                    (let w5 = emit (ChatMessage Assistant bot_reply) w4
                     in Finished (w5\<lparr>messages := messages w5 @ [(Assistant, bot_reply)]\<rparr>))
                | Inl e \<Rightarrow>
                    (let error_message =
                           [10060, 32] @ lit ''Error communicating with Gemini: '' @ e;
                         w5 = emit (StError error_message) w4
                     in Finished (w5\<lparr>messages := messages w5 @ [(Assistant, error_message)]\<rparr>))))"

text \<open>Lines 156-165; the key \<open>model\<close> is in the session state after initialisation.\<close>

definition clear_chat :: "widgets \<Rightarrow> world \<Rightarrow> outcome" where
  "clear_chat wd w = (if clear_chat_button wd then Rerun (clear_chat_only w) else Finished w)"

definition script :: "chat_service \<Rightarrow> widgets \<Rightarrow> world \<Rightarrow> outcome" where
  "script send_message wd w =
     then_run
       (then_run
          (then_run
             (then_run (process_pdf wd w) (pdf_context_panel wd))
             display_messages)
          (chat send_message wd))
       (clear_chat wd)"

text \<open>Every run draws the page anew.\<close>

definition run :: "chat_service \<Rightarrow> widgets \<Rightarrow> world \<Rightarrow> outcome" where
  "run send_message wd w = script send_message wd (w\<lparr>trace := []\<rparr>)"

text \<open>
  A run is started by one interaction: in that run one button returns \<open>True\<close> or the chat
  input returns the submitted text, and the file uploader keeps its file.
\<close>

definition idle :: "uploaded_file option \<Rightarrow> widgets" where
  "idle up = \<lparr>uploaded_pdf = up, process_pdf_button = False, clear_pdf_button = False,
              chat_input = None, clear_chat_button = False\<rparr>"

definition click_process_pdf :: "uploaded_file \<Rightarrow> widgets" where
  "click_process_pdf f = (idle (Some f))\<lparr>process_pdf_button := True\<rparr>"

definition click_clear_pdf :: "uploaded_file option \<Rightarrow> widgets" where
  "click_clear_pdf up = (idle up)\<lparr>clear_pdf_button := True\<rparr>"

definition submit_chat :: "uploaded_file option \<Rightarrow> pystr \<Rightarrow> widgets" where
  "submit_chat up prompt = (idle up)\<lparr>chat_input := Some prompt\<rparr>"

definition click_clear_chat :: "uploaded_file option \<Rightarrow> widgets" where
  "click_clear_chat up = (idle up)\<lparr>clear_chat_button := True\<rparr>"

text \<open>The session states that runs of the script can produce.\<close>

inductive reachable :: "world \<Rightarrow> bool" where
  start: "reachable initial_world"
| step: "reachable w \<Longrightarrow> reachable (world_of (run send_message wd w))"

section \<open>Observing a run\<close>

text \<open>The prompts handed to \<open>send_message\<close> and the warnings shown, in order.\<close>

fun payload_of :: "effect \<Rightarrow> pystr option" where
  "payload_of (SendMessage h p) = Some p"
| "payload_of _ = None"

fun warning_of :: "effect \<Rightarrow> pystr option" where
  "warning_of (StWarning t) = Some t"
| "warning_of _ = None"

definition sent_payloads :: "outcome \<Rightarrow> pystr list" where
  "sent_payloads r = List.map_filter payload_of (trace (world_of r))"

definition warnings :: "outcome \<Rightarrow> pystr list" where
  "warnings r = List.map_filter warning_of (trace (world_of r))"

fun finished :: "outcome \<Rightarrow> bool" where
  "finished (Finished w) = True"
| "finished (Rerun w) = False"
| "finished (Raised e w) = False"

text \<open>Two behaviours of the chat service: it answers with a given text, or it raises.\<close>

definition replying :: "pystr \<Rightarrow> chat_service" where
  "replying reply h p = Inr reply"

definition failing :: "pystr \<Rightarrow> chat_service" where
  "failing detail h p = Inl detail"

section \<open>Sample sessions\<close>

text \<open>
  Sessions used as concrete inputs below: after processing a one-page statement, after
  processing a PDF whose only page holds a single space, after one question without a
  document, and a session holding a document of \<open>n\<close> characters.
\<close>

definition statement_loaded :: world where
  "statement_loaded =
     world_of (run (replying [])
       (click_process_pdf (Pdf [PageText (Some (lit ''Balance: $100''))])) initial_world)"

definition blank_loaded :: world where
  "blank_loaded =
     world_of (run (replying [])
       (click_process_pdf (Pdf [PageText (Some (lit '' ''))])) initial_world)"

definition chatted :: world where
  "chatted =
     world_of (run (replying (lit ''$100''))
       (submit_chat None (lit ''What is the balance?'')) initial_world)"

definition long_statement :: "nat \<Rightarrow> world" where
  "long_statement n =
     \<lparr>chat_session = 1, messages = [], pdf_text_context = Some (replicate n 120),
      chats_started = 2, trace = []\<rparr>"

section \<open>Unfolding the script\<close>

lemmas section_defs = process_pdf_def pdf_context_panel_def display_messages_def chat_def
  clear_chat_def

lemmas run_defs = run_def script_def then_run_def section_defs emit_def truthy_def Let_def

lemmas widget_defs = idle_def click_process_pdf_def click_clear_pdf_def submit_chat_def
  click_clear_chat_def

lemma map_filter_chat_messages [simp]:
  "List.map_filter payload_of (map (\<lambda>(r, c). ChatMessage r c) ms) = []"
  "List.map_filter warning_of (map (\<lambda>(r, c). ChatMessage r c) ms) = []"
  by (induction ms) auto

lemma map_filter_append [simp]:
  "List.map_filter f (xs @ ys) = List.map_filter f xs @ List.map_filter f ys"
  by (simp add: List.map_filter_def)

text \<open>A run in which only the Process PDF button fired.\<close>

lemma run_click_process_pdf:
  assumes "extract_text_from_pdf (Some f) = Some t"
  shows "run send_message (click_process_pdf f) w =
     (if sublist (lit ''Error reading PDF'') t \<or> sublist (lit ''No text could be extracted'') t
      then Finished (w\<lparr>pdf_text_context := None,
                       trace := SidebarError t # map (\<lambda>(r, c). ChatMessage r c) (messages w)\<rparr>)
      else Rerun (process_pdf_success t (w\<lparr>trace := []\<rparr>)))"
  using assms
  by (simp add: run_defs widget_defs)

text \<open>A run in which only the chat input fired, with a non-empty text.\<close>

lemma run_submit_chat:
  assumes "prompt \<noteq> []"
  shows "run send_message (submit_chat up prompt) w =
    chat send_message (submit_chat up prompt)
      (w\<lparr>trace := (if truthy (pdf_text_context w) then [StInfo context_loaded_msg] else [])
                     @ map (\<lambda>(r, c). ChatMessage r c) (messages w)\<rparr>)"
  by (simp add: run_def script_def then_run_def process_pdf_def pdf_context_panel_def
      display_messages_def clear_chat_def emit_def Let_def widget_defs chat_def
      split: sum.splits)

lemma chat_trace:
  assumes "prompt \<noteq> []"
  shows "trace (world_of (run send_message (submit_chat up prompt) w)) =
     (if truthy (pdf_text_context w) then [StInfo context_loaded_msg] else [])
     @ map (\<lambda>(r, c). ChatMessage r c) (messages w)
     @ [ChatMessage User prompt]
     @ (if truthy (pdf_text_context w) \<and> 28000 < length (final_prompt (pdf_text_context w) prompt)
        then [StWarning truncation_warning] else [])
     @ [SendMessage (chat_session w) (final_prompt (pdf_text_context w) prompt),
        case send_message (chat_session w) (final_prompt (pdf_text_context w) prompt) of
          Inr bot_reply \<Rightarrow> ChatMessage Assistant bot_reply
        | Inl e \<Rightarrow> StError ([10060, 32] @ lit ''Error communicating with Gemini: '' @ e)]"
  unfolding run_submit_chat [OF assms] using assms
  by (auto simp add: chat_def submit_chat_def idle_def emit_def Let_def split: sum.splits)

text \<open>Runs in which only one of the two clear buttons fired.\<close>

lemma run_click_clear_pdf:
  assumes "truthy (pdf_text_context w)"
  shows "run send_message (click_clear_pdf up) w =
           Rerun (clear_pdf_context_and_chat (w\<lparr>trace := [StInfo context_loaded_msg]\<rparr>))"
  using assms
  by (simp add: run_def script_def then_run_def process_pdf_def pdf_context_panel_def emit_def
      Let_def widget_defs)

lemma run_click_clear_pdf_absent:
  assumes "\<not> truthy (pdf_text_context w)"
  shows "run send_message (click_clear_pdf up) w =
           Finished (w\<lparr>trace := map (\<lambda>(r, c). ChatMessage r c) (messages w)\<rparr>)"
  using assms
  by (simp add: run_def script_def then_run_def section_defs widget_defs)

lemma run_click_clear_chat:
  "run send_message (click_clear_chat up) w =
     Rerun (clear_chat_only
       (w\<lparr>trace := (if truthy (pdf_text_context w) then [StInfo context_loaded_msg] else [])
                     @ map (\<lambda>(r, c). ChatMessage r c) (messages w)\<rparr>))"
  by (simp add: run_def script_def then_run_def section_defs emit_def Let_def widget_defs)

section \<open>The sample sessions, evaluated\<close>

lemma statement_loaded_eq:
  "statement_loaded =
     \<lparr>chat_session = 1, messages = [], pdf_text_context = Some (lit ''Balance: $100''),
      chats_started = 2,
      trace = [SidebarSuccess pdf_processed_msg,
               SidebarExpanderText (lit ''Balance: $100...''),
               SidebarInfo (lit ''Total characters extracted: 13'')]\<rparr>"
proof -
  have e: "extract_text_from_pdf (Some (Pdf [PageText (Some (lit ''Balance: $100''))]))
             = Some (lit ''Balance: $100'')"
    by (simp add: extract_text_from_pdf_def strip_def py_isspace_def lit_def)
  have n: "str_of_nat 13 = lit ''13''"
    by (simp add: str_of_nat.simps lit_def)
  have l: "length (lit ''Balance: $100'') = 13"
    by (simp add: lit_def)
  have s: "\<not> sublist (lit ''Error reading PDF'') (lit ''Balance: $100'')"
          "\<not> sublist (lit ''No text could be extracted'') (lit ''Balance: $100'')"
    by (simp_all add: lit_def sublist_Cons_right)
  show ?thesis
    unfolding statement_loaded_def
    by (simp add: run_defs widget_defs e s l n initial_world_def process_pdf_success_def
        new_chat_session_def) (simp add: lit_def)
qed

lemma blank_loaded_eq:
  "blank_loaded =
     \<lparr>chat_session = 1, messages = [], pdf_text_context = Some [], chats_started = 2,
      trace = [SidebarSuccess pdf_processed_msg, SidebarExpanderText (lit ''...''),
               SidebarInfo (lit ''Total characters extracted: 0'')]\<rparr>"
proof -
  have e: "extract_text_from_pdf (Some (Pdf [PageText (Some (lit '' ''))])) = Some []"
    by (simp add: extract_text_from_pdf_def strip_def py_isspace_def lit_def)
  have n: "str_of_nat 0 = [48]"
    by (simp add: str_of_nat.simps)
  show ?thesis
    unfolding blank_loaded_def
    by (simp add: run_defs widget_defs e n initial_world_def process_pdf_success_def
        new_chat_session_def) (simp add: lit_def)
qed

lemma chatted_eq:
  "chatted = \<lparr>chat_session = 0,
      messages = [(User, lit ''What is the balance?''), (Assistant, lit ''$100'')],
      pdf_text_context = None, chats_started = 1,
      trace = [ChatMessage User (lit ''What is the balance?''),
               SendMessage 0 (lit ''What is the balance?''),
               ChatMessage Assistant (lit ''$100'')]\<rparr>"
proof -
  have p: "lit ''What is the balance?'' \<noteq> []"
    by (simp add: lit_def)
  show ?thesis
    unfolding chatted_def run_submit_chat [OF p] using p
    by (simp add: chat_def submit_chat_def idle_def emit_def Let_def initial_world_def
        truthy_def final_prompt_def replying_def)
qed

lemma sample_sessions_reachable:
  "reachable statement_loaded" "reachable blank_loaded" "reachable chatted"
  unfolding statement_loaded_def blank_loaded_def chatted_def
  by (intro reachable.intros)+

section \<open>Extraction\<close>

lemma read_pages_empty:
  "(read_pages pages acc = Inr []) =
     (acc = [] \<and> (\<forall>p \<in> set pages. p = PageText None \<or> p = PageText (Some [])))"
proof (induction pages arbitrary: acc)
  case Nil
  then show ?case by auto
next
  case (Cons p pages)
  show ?case
  proof (cases p)
    case (PageText page_text)
    then show ?thesis
      using Cons.IH by (cases page_text) auto
  next
    case (PageRaises e)
    then show ?thesis by simp
  qed
qed

text \<open>Pages without any text give the no-text message.\<close>

lemma extract_no_text:
  assumes "\<forall>p \<in> set pages. p = PageText None \<or> p = PageText (Some [])"
  shows "extract_text_from_pdf (Some (Pdf pages)) = Some no_text_extracted"
proof -
  have "read_pages pages [] = Inr []"
    using assms by (simp add: read_pages_empty)
  then show ?thesis
    by (simp add: extract_text_from_pdf_def)
qed

text \<open>What \<open>strip\<close> returns neither starts nor ends with whitespace.\<close>

lemma strip_ends:
  assumes "strip s \<noteq> []"
  shows "\<not> py_isspace (hd (strip s)) \<and> \<not> py_isspace (last (strip s))"
proof -
  let ?a = "dropWhile py_isspace s"
  let ?b = "dropWhile py_isspace (rev ?a)"
  have b: "?b \<noteq> []"
    using assms by (simp add: strip_def)
  have a: "?a \<noteq> []"
  proof
    assume e: "?a = []"
    have "?b = []"
      unfolding e by simp
    with b show False by contradiction
  qed
  have "last (strip s) = hd ?b"
    using b by (simp add: strip_def last_rev)
  moreover have "\<not> py_isspace (hd ?b)"
    using b by (rule hd_dropWhile)
  moreover have "hd (strip s) = last ?b"
    using b by (simp add: strip_def hd_rev)
  moreover have "last ?b = last (rev ?a)"
    using b by (metis append_Nil2 last_appendR takeWhile_dropWhile_id)
  moreover have "last (rev ?a) = hd ?a"
    using a by (simp add: last_rev)
  moreover have "\<not> py_isspace (hd ?a)"
    using a by (rule hd_dropWhile)
  ultimately show ?thesis by simp
qed

text \<open>
  When no page raises and the trimmed concatenation is not empty, the result is that
  trimmed text.
\<close>

lemma extract_trimmed:
  assumes "read_pages pages [] = Inr full_text" and "strip full_text \<noteq> []"
  shows "extract_text_from_pdf (Some (Pdf pages)) = Some (strip full_text)
     \<and> \<not> py_isspace (hd (strip full_text)) \<and> \<not> py_isspace (last (strip full_text))"
proof -
  have "full_text \<noteq> []"
    using assms(2) by (auto simp: strip_def)
  then show ?thesis
    using assms strip_ends [of full_text] by (simp add: extract_text_from_pdf_def)
qed

text \<open>
  C2. For a PDF that opens and whose pages extract without raising, the result is the
  no-text message exactly when the concatenation of the page texts is empty after trimming.
  The function tests the concatenation for emptiness before it trims: for a PDF whose only
  page extracts to a single space the concatenation is that space and the separator, it is
  empty after trimming, and the function returns the empty string, which is neither the
  no-text message nor a non-empty text.
\<close>

theorem extract_whitespace_only_page:
  "read_pages [PageText (Some (lit '' ''))] [] = Inr (lit '' '' @ [10, 10])
   \<and> strip (lit '' '' @ [10, 10]) = []
   \<and> extract_text_from_pdf (Some (Pdf [PageText (Some (lit '' ''))])) = Some []
   \<and> [] \<noteq> no_text_extracted"
  by (simp add: extract_text_from_pdf_def strip_def py_isspace_def lit_def no_text_extracted_def)

text \<open>
  C3. A two-page PDF whose pages extract to "Balance: $100" and "Balance: $200" gives
  exactly "Balance: $100", a blank line, "Balance: $200": the page texts in page order,
  separated by a blank line, and no separator left at the end after trimming.
\<close>

theorem extract_two_pages:
  "extract_text_from_pdf
     (Some (Pdf [PageText (Some (lit ''Balance: $100'')), PageText (Some (lit ''Balance: $200''))]))
   = Some (lit ''Balance: $100'' @ [10, 10] @ lit ''Balance: $200'')"
  by (simp add: extract_text_from_pdf_def strip_def py_isspace_def lit_def)

section \<open>Processing a PDF\<close>

lemma error_reading_marker: "sublist (lit ''Error reading PDF'') (error_reading_pdf e)"
proof -
  have "error_reading_pdf e =
          lit ''Error reading PDF'' @ (lit '': '' @ e @ lit ''. Is it a valid PDF file?'')"
    by (simp add: error_reading_pdf_def lit_def)
  then show ?thesis by (metis sublist_append_rightI)
qed

lemma no_text_marker: "sublist (lit ''No text could be extracted'') no_text_extracted"
proof -
  have "no_text_extracted = lit ''No text could be extracted'' @ lit '' from this PDF.''"
    by (simp add: no_text_extracted_def lit_def)
  then show ?thesis by (metis sublist_append_rightI)
qed

text \<open>A PDF without any text is refused with the no-text message.\<close>

lemma no_text_pdf_refused:
  assumes "\<forall>p \<in> set pages. p = PageText None \<or> p = PageText (Some [])"
  shows "run send_message (click_process_pdf (Pdf pages)) w =
           Finished (w\<lparr>pdf_text_context := None,
                       trace := SidebarError no_text_extracted
                                # map (\<lambda>(r, c). ChatMessage r c) (messages w)\<rparr>)"
  using run_click_process_pdf [OF extract_no_text [OF assms], of send_message w]
  by (simp add: no_text_marker)

text \<open>
  C1, as the code has it. When the Process PDF button fires and the extracted string holds
  one of the two failure markers, the run shows that string as an error in the sidebar,
  sets \<open>pdf_text_context\<close> to \<open>None\<close>, and leaves \<open>messages\<close> and \<open>chat_session\<close> as
  they were; it ends at the bottom of the script, after drawing the transcript.
\<close>

theorem process_pdf_failure:
  assumes "extract_text_from_pdf (Some f) = Some t"
    and "sublist (lit ''Error reading PDF'') t \<or> sublist (lit ''No text could be extracted'') t"
  shows "run send_message (click_process_pdf f) w =
           Finished (w\<lparr>pdf_text_context := None,
                       trace := SidebarError t # map (\<lambda>(r, c). ChatMessage r c) (messages w)\<rparr>)"
  using assms
  by (simp add: run_defs widget_defs)

theorem process_pdf_failure_witness:
  "run (replying []) (click_process_pdf (OpenRaises (lit ''boom''))) initial_world =
     Finished (initial_world\<lparr>pdf_text_context := None,
        trace := [SidebarError (error_reading_pdf (lit ''boom''))]\<rparr>)"
proof -
  have a: "extract_text_from_pdf (Some (OpenRaises (lit ''boom'')))
             = Some (error_reading_pdf (lit ''boom''))"
    by (simp add: extract_text_from_pdf_def)
  have b: "sublist (lit ''Error reading PDF'') (error_reading_pdf (lit ''boom''))
    \<or> sublist (lit ''No text could be extracted'') (error_reading_pdf (lit ''boom''))"
    by (simp add: error_reading_marker)
  show ?thesis
    using process_pdf_failure [OF a b, of "replying []" initial_world]
    by (simp add: initial_world_def)
qed

text \<open>
  The session does not stay as it was: with a statement loaded, a file that cannot be
  opened leaves the session without its document.
\<close>

theorem failed_pdf_clears_context_counterexample:
  "extract_text_from_pdf (Some (OpenRaises (lit ''boom''))) = Some (error_reading_pdf (lit ''boom''))
   \<and> pdf_text_context statement_loaded = Some (lit ''Balance: $100'')
   \<and> pdf_text_context
         (world_of (run (replying []) (click_process_pdf (OpenRaises (lit ''boom''))) statement_loaded))
       = None"
  by (simp add: run_defs widget_defs extract_text_from_pdf_def error_reading_marker
      statement_loaded_eq)

text \<open>
  C9. When the Process PDF button fires, the run treats the extracted string as a failure
  (shows it as a sidebar error and ends without loading it) exactly when the string holds
  "Error reading PDF" or "No text could be extracted"; so a PDF whose own text holds one
  of them is refused, and \<open>pdf_text_context\<close> is \<open>None\<close> afterwards, not that text.
\<close>

theorem process_pdf_classification:
  assumes "extract_text_from_pdf (Some f) = Some t"
  shows "finished (run send_message (click_process_pdf f) w) =
           (sublist (lit ''Error reading PDF'') t \<or> sublist (lit ''No text could be extracted'') t)
     \<and> (SidebarError t \<in> set (trace (world_of (run send_message (click_process_pdf f) w)))) =
           (sublist (lit ''Error reading PDF'') t \<or> sublist (lit ''No text could be extracted'') t)
     \<and> pdf_text_context (world_of (run send_message (click_process_pdf f) w)) =
           (if sublist (lit ''Error reading PDF'') t \<or> sublist (lit ''No text could be extracted'') t
            then None else Some t)"
  by (auto simp: run_click_process_pdf [OF assms] process_pdf_success_def new_chat_session_def
      emit_def Let_def)

theorem process_pdf_classification_witness:
  "extract_text_from_pdf (Some (Pdf [PageText (Some (lit ''How to fix Error reading PDF''))]))
     = Some (lit ''How to fix Error reading PDF'')
   \<and> finished (run (replying [])
        (click_process_pdf (Pdf [PageText (Some (lit ''How to fix Error reading PDF''))]))
        initial_world)
   \<and> SidebarError (lit ''How to fix Error reading PDF'')
       \<in> set (trace (world_of (run (replying [])
           (click_process_pdf (Pdf [PageText (Some (lit ''How to fix Error reading PDF''))]))
           initial_world)))
   \<and> pdf_text_context (world_of (run (replying [])
        (click_process_pdf (Pdf [PageText (Some (lit ''How to fix Error reading PDF''))]))
        initial_world))
       = None"
proof -
  have e: "extract_text_from_pdf (Some (Pdf [PageText (Some (lit ''How to fix Error reading PDF''))]))
     = Some (lit ''How to fix Error reading PDF'')"
    by (simp add: extract_text_from_pdf_def strip_def py_isspace_def lit_def)
  have s: "sublist (lit ''Error reading PDF'') (lit ''How to fix Error reading PDF'')"
    by (simp add: lit_def sublist_Cons_right)
  show ?thesis
    using process_pdf_classification [OF e, of "replying []" initial_world] e s
    by simp
qed

section \<open>Sending a message\<close>

text \<open>
  C4, as the code has it. When the chat input fires with a text, one prompt is sent. If
  \<open>pdf_text_context\<close> holds a non-empty text, the prompt is the instruction, the document
  between its start and end markers, and "User's Question: " followed by the user's text;
  if \<open>pdf_text_context\<close> is \<open>None\<close> or the empty string, the prompt is the user's text
  itself.
\<close>

theorem chat_payload:
  assumes "prompt \<noteq> []"
  shows "sent_payloads (run send_message (submit_chat up prompt) w) =
     [case pdf_text_context w of
        None \<Rightarrow> prompt
      | Some text \<Rightarrow>
          if text = [] then prompt
          else lit ''Based on the following bank statement text, please answer the user's question.''
                 @ [10, 10] @ lit ''--- BANK STATEMENT TEXT START ---'' @ [10]
                 @ text
                 @ [10] @ lit ''--- BANK STATEMENT TEXT END ---'' @ [10, 10]
                 @ lit ''User's Question: '' @ prompt]"
  unfolding run_submit_chat [OF assms] using assms
  by (simp add: sent_payloads_def chat_def submit_chat_def idle_def emit_def
      Let_def final_prompt_def truthy_def split: sum.splits option.splits)

theorem chat_payload_witness:
  "lit ''What is the balance?'' \<noteq> []
   \<and> sent_payloads (run (replying (lit ''$100'')) (submit_chat None (lit ''What is the balance?''))
        statement_loaded) =
     [lit ''Based on the following bank statement text, please answer the user's question.''
        @ [10, 10] @ lit ''--- BANK STATEMENT TEXT START ---'' @ [10]
        @ lit ''Balance: $100''
        @ [10] @ lit ''--- BANK STATEMENT TEXT END ---'' @ [10, 10]
        @ lit ''User's Question: What is the balance?'']"
proof -
  have h: "lit ''What is the balance?'' \<noteq> []"
    by (simp add: lit_def)
  have c: "pdf_text_context statement_loaded = Some (lit ''Balance: $100'')"
    by (simp add: statement_loaded_eq)
  show ?thesis
    using chat_payload [OF h, of "replying (lit ''$100'')" None statement_loaded] h
    by (simp add: c) (simp add: lit_def)
qed

text \<open>
  With the empty string as document (the session left by a PDF whose only page is a
  space) the prompt is the user's text, not the template around an empty document.
\<close>

theorem empty_context_payload_counterexample:
  "pdf_text_context blank_loaded = Some []
   \<and> sent_payloads (run (replying []) (submit_chat None (lit ''hi'')) blank_loaded) = [lit ''hi'']
   \<and> lit ''hi'' \<noteq>
       lit ''Based on the following bank statement text, please answer the user's question.''
         @ [10, 10] @ lit ''--- BANK STATEMENT TEXT START ---'' @ [10]
         @ []
         @ [10] @ lit ''--- BANK STATEMENT TEXT END ---'' @ [10, 10]
         @ lit ''User's Question: '' @ lit ''hi''"
proof -
  have c: "pdf_text_context blank_loaded = Some []"
    by (simp add: blank_loaded_eq)
  have h: "lit ''hi'' \<noteq> []"
    by (simp add: lit_def)
  have "sent_payloads (run (replying []) (submit_chat None (lit ''hi'')) blank_loaded) = [lit ''hi'']"
    unfolding run_submit_chat [OF h] using h
    by (simp add: sent_payloads_def chat_def submit_chat_def idle_def emit_def
      Let_def final_prompt_def truthy_def c replying_def)
  then show ?thesis
    by (simp add: c lit_def)
qed

lemma length_final_prompt:
  "text \<noteq> [] \<Longrightarrow> length (final_prompt (Some text) prompt) = 165 + length text + length prompt"
  by (simp add: final_prompt_def lit_def)

text \<open>
  C5, as the code has it. When the chat input fires with a text while
  \<open>pdf_text_context\<close> holds a non-empty document, the truncation warning is shown exactly
  when the prompt built is longer than 28000 characters, and in either case the prompt is
  sent and the run goes on to its end.
\<close>

theorem truncation_warning_with_document:
  assumes "prompt \<noteq> []" and "pdf_text_context w = Some text" and "text \<noteq> []"
  shows "warnings (run send_message (submit_chat up prompt) w) =
           (if 28000 < length (final_prompt (Some text) prompt) then [truncation_warning] else [])
     \<and> sent_payloads (run send_message (submit_chat up prompt) w) = [final_prompt (Some text) prompt]
     \<and> finished (run send_message (submit_chat up prompt) w)"
proof -
  have f: "finished (run send_message (submit_chat up prompt) w)"
    unfolding run_submit_chat [OF assms(1)] using assms(1)
    by (simp add: chat_def submit_chat_def idle_def Let_def split: sum.splits)
  show ?thesis
    using assms(2,3) f
    by (simp add: warnings_def sent_payloads_def chat_trace [OF assms(1)] truthy_def
        split: sum.splits)
qed

text \<open>A prompt of 30000 characters is warned about, one of 27000 characters is not.\<close>

theorem truncation_warning_with_document_witness:
  "length (final_prompt (Some (replicate 29815 120)) (lit ''What is the balance?'')) = 30000
   \<and> warnings (run (replying []) (submit_chat None (lit ''What is the balance?'')) (long_statement 29815))
       = [truncation_warning]
   \<and> sent_payloads (run (replying []) (submit_chat None (lit ''What is the balance?'')) (long_statement 29815))
       = [final_prompt (Some (replicate 29815 120)) (lit ''What is the balance?'')]
   \<and> finished (run (replying []) (submit_chat None (lit ''What is the balance?'')) (long_statement 29815))
   \<and> length (final_prompt (Some (replicate 26815 120)) (lit ''What is the balance?'')) = 27000
   \<and> warnings (run (replying []) (submit_chat None (lit ''What is the balance?'')) (long_statement 26815))
       = []"
proof -
  have p: "lit ''What is the balance?'' \<noteq> []" "length (lit ''What is the balance?'') = 20"
    by (simp_all add: lit_def)
  have c: "pdf_text_context (long_statement 29815) = Some (replicate 29815 120)"
          "pdf_text_context (long_statement 26815) = Some (replicate 26815 120)"
    by (simp_all add: long_statement_def)
  have n: "replicate 29815 (120::nat) \<noteq> []" "replicate 26815 (120::nat) \<noteq> []"
    by simp_all
  show ?thesis
    using truncation_warning_with_document [OF p(1) c(1) n(1), of "replying []" None]
      truncation_warning_with_document [OF p(1) c(2) n(2), of "replying []" None]
    by (simp add: length_final_prompt p)
qed

text \<open>Without a document, a prompt of 30000 characters is sent without any warning.\<close>

theorem long_prompt_without_document_counterexample:
  "pdf_text_context initial_world = None
   \<and> sent_payloads (run (replying []) (submit_chat None (replicate 30000 120)) initial_world)
       = [replicate 30000 120]
   \<and> 28000 < length (replicate 30000 (120::nat))
   \<and> warnings (run (replying []) (submit_chat None (replicate 30000 120)) initial_world) = []"
proof -
  have n: "replicate 30000 (120::nat) \<noteq> []"
    by simp
  show ?thesis
    by (simp add: warnings_def sent_payloads_def chat_trace [OF n] truthy_def initial_world_def
        final_prompt_def replying_def)
qed

text \<open>
  C10. The length of the prompt is looked at only when a document is loaded: when the chat
  input fires while \<open>pdf_text_context\<close> is \<open>None\<close>, no warning is shown, whatever the
  length of the user's text.
\<close>

theorem no_warning_without_document:
  assumes "pdf_text_context w = None"
  shows "warnings (run send_message (submit_chat up prompt) w) = []"
proof (cases "prompt = []")
  case True
  then show ?thesis
    using assms
    by (simp add: warnings_def run_defs widget_defs)
next
  case False
  then show ?thesis
    using assms
    by (simp add: warnings_def chat_trace truthy_def split: sum.splits)
qed

theorem no_warning_without_document_witness:
  "pdf_text_context initial_world = None
   \<and> 28000 < length (replicate 28001 (97::nat))
   \<and> warnings (run (failing (lit ''too long'')) (submit_chat None (replicate 28001 97)) initial_world) = []"
proof -
  have c: "pdf_text_context initial_world = None"
    by (simp add: initial_world_def)
  show ?thesis
    using no_warning_without_document [OF c, of "failing (lit ''too long'')" None "replicate 28001 97"] c
    by simp
qed

text \<open>
  C6, as the code has it. When the chat input fires with a text, the run ends at the bottom
  of the script (no exception leaves it), \<open>pdf_text_context\<close> is as before, and
  \<open>messages\<close> gains the user's message and one assistant message: the reply when
  \<open>send_message\<close> returns, and when it raises with text \<open>detail\<close> the text made of a
  cross mark (code point 10060), a space, "Error communicating with Gemini: " and
  \<open>detail\<close>.
\<close>

theorem send_message_result:
  assumes "prompt \<noteq> []"
  shows "finished (run send_message (submit_chat up prompt) w)
     \<and> pdf_text_context (world_of (run send_message (submit_chat up prompt) w)) = pdf_text_context w
     \<and> messages (world_of (run send_message (submit_chat up prompt) w)) =
         messages w @
         [(User, prompt),
          (Assistant,
           case send_message (chat_session w) (final_prompt (pdf_text_context w) prompt) of
             Inl detail \<Rightarrow> [10060, 32] @ lit ''Error communicating with Gemini: '' @ detail
           | Inr reply \<Rightarrow> reply)]"
  unfolding run_submit_chat [OF assms] using assms
  by (simp add: chat_def submit_chat_def idle_def emit_def Let_def split: sum.splits)

theorem send_message_result_witness:
  "lit ''What is the balance?'' \<noteq> []
   \<and> finished (run (failing (lit ''quota exceeded'')) (submit_chat None (lit ''What is the balance?''))
        statement_loaded)
   \<and> pdf_text_context (world_of (run (failing (lit ''quota exceeded''))
        (submit_chat None (lit ''What is the balance?'')) statement_loaded))
       = Some (lit ''Balance: $100'')
   \<and> messages (world_of (run (failing (lit ''quota exceeded''))
        (submit_chat None (lit ''What is the balance?'')) statement_loaded))
       = [(User, lit ''What is the balance?''),
          (Assistant, [10060, 32] @ lit ''Error communicating with Gemini: quota exceeded'')]
   \<and> messages (world_of (run (replying (lit ''$100''))
        (submit_chat None (lit ''What is the balance?'')) statement_loaded))
       = [(User, lit ''What is the balance?''), (Assistant, lit ''$100'')]"
proof -
  have p: "lit ''What is the balance?'' \<noteq> []"
    by (simp add: lit_def)
  have c: "pdf_text_context statement_loaded = Some (lit ''Balance: $100'')"
     "messages statement_loaded = []"
    by (simp_all add: statement_loaded_eq)
  show ?thesis
    using send_message_result [OF p, of "failing (lit ''quota exceeded'')" None statement_loaded]
      send_message_result [OF p, of "replying (lit ''$100'')" None statement_loaded] p
    by (simp add: c failing_def replying_def) (simp add: lit_def)
qed

text \<open>
  The assistant message of a failed send is not the bare text "Error communicating with
  Gemini: quota exceeded": it starts with the cross mark, and the bare text is not among
  the messages.
\<close>

theorem bare_error_message_counterexample:
  "messages (world_of (run (failing (lit ''quota exceeded''))
        (submit_chat None (lit ''What is the balance?'')) statement_loaded))
     = [(User, lit ''What is the balance?''),
        (Assistant, [10060, 32] @ lit ''Error communicating with Gemini: quota exceeded'')]
   \<and> (Assistant, lit ''Error communicating with Gemini: quota exceeded'')
       \<notin> set (messages (world_of (run (failing (lit ''quota exceeded''))
           (submit_chat None (lit ''What is the balance?'')) statement_loaded)))"
proof -
  have p: "lit ''What is the balance?'' \<noteq> []"
    by (simp add: lit_def)
  have m: "messages (world_of (run (failing (lit ''quota exceeded''))
        (submit_chat None (lit ''What is the balance?'')) statement_loaded))
     = [(User, lit ''What is the balance?''),
        (Assistant, [10060, 32] @ lit ''Error communicating with Gemini: quota exceeded'')]"
    unfolding run_submit_chat [OF p] using p
    by (simp add: chat_def submit_chat_def idle_def emit_def Let_def failing_def
        statement_loaded_eq) (simp add: lit_def)
  show ?thesis
    unfolding m by (simp add: lit_def)
qed

section \<open>Clearing the document and the chat\<close>

text \<open>
  C7. The Clear PDF Context and Chat handler leaves \<open>pdf_text_context\<close> at \<open>None\<close>
  whatever it was, and the Clear Chat Only handler leaves \<open>pdf_text_context\<close> as it was.
  The same holds of the runs in which the buttons fire; the first button exists only
  while a document is loaded, and without it the run changes nothing.
\<close>

theorem clear_pdf_and_clear_chat_context:
  "pdf_text_context (clear_pdf_context_and_chat w) = None
   \<and> pdf_text_context (clear_chat_only w) = pdf_text_context w
   \<and> pdf_text_context (world_of (run send_message (click_clear_pdf up) w)) =
       (if truthy (pdf_text_context w) then None else pdf_text_context w)
   \<and> pdf_text_context (world_of (run send_message (click_clear_chat up) w)) = pdf_text_context w"
  by (simp add: run_click_clear_pdf run_click_clear_pdf_absent run_click_clear_chat
      clear_pdf_context_and_chat_def clear_chat_only_def new_chat_session_def emit_def Let_def)

theorem clear_pdf_and_clear_chat_context_witness:
  "pdf_text_context (clear_pdf_context_and_chat statement_loaded) = None
   \<and> pdf_text_context (clear_chat_only statement_loaded) = Some (lit ''Balance: $100'')
   \<and> pdf_text_context (world_of (run (replying []) (click_clear_pdf None) statement_loaded)) = None
   \<and> pdf_text_context (world_of (run (replying []) (click_clear_chat None) statement_loaded))
       = Some (lit ''Balance: $100'')"
proof -
  have c: "pdf_text_context statement_loaded = Some (lit ''Balance: $100'')"
    by (simp add: statement_loaded_eq)
  have t: "truthy (Some (lit ''Balance: $100''))"
    by (simp add: truthy_def lit_def)
  show ?thesis
    using clear_pdf_and_clear_chat_context [of statement_loaded "replying []" None]
    by (simp add: c t)
qed

text \<open>
  A run either keeps the chat object and the count of chats started, or ends with an empty
  message list and a chat object created in that run.
\<close>

lemma run_chat_session:
  "(chat_session (world_of (run send_message wd w)) = chat_session w
      \<and> chats_started (world_of (run send_message wd w)) = chats_started w)
   \<or> (messages (world_of (run send_message wd w)) = []
      \<and> chat_session (world_of (run send_message wd w)) = chats_started w
      \<and> chats_started (world_of (run send_message wd w)) = Suc (chats_started w))"
proof -
  define K where "K = (\<lambda>v::world. chat_session v = chat_session w \<and> chats_started v = chats_started w)"
  define F where "F = (\<lambda>v::world. messages v = [] \<and> chat_session v = chats_started w
                            \<and> chats_started v = Suc (chats_started w))"
  define G where "G = (\<lambda>r. case r of Finished v \<Rightarrow> K v | Rerun v \<Rightarrow> F v | Raised e v \<Rightarrow> K v)"
  have s1: "G (process_pdf wd v)" if "K v" for v
    using that
    by (simp add: G_def K_def F_def process_pdf_def process_pdf_success_def new_chat_session_def
        emit_def Let_def split: option.splits)
  have s2: "G (pdf_context_panel wd v)" if "K v" for v
    using that
    by (simp add: G_def K_def F_def pdf_context_panel_def clear_pdf_context_and_chat_def
        new_chat_session_def emit_def Let_def)
  have s3: "G (display_messages v)" if "K v" for v
    using that by (simp add: G_def K_def display_messages_def)
  have s4: "G (chat send_message wd v)" if "K v" for v
    using that
    by (simp add: G_def K_def chat_def emit_def Let_def split: option.splits sum.splits)
  have s5: "G (clear_chat wd v)" if "K v" for v
    using that
    by (simp add: G_def K_def F_def clear_chat_def clear_chat_only_def new_chat_session_def
        emit_def Let_def)
  have comp: "G (then_run r f)" if "G r" and "\<And>v. K v \<Longrightarrow> G (f v)" for r f
    using that by (cases r) (simp_all add: then_run_def G_def)
  have "K (w\<lparr>trace := []\<rparr>)"
    by (simp add: K_def)
  then have "G (run send_message wd w)"
    unfolding run_def script_def
    by (intro comp s1 s2 s3 s4 s5)
  then show ?thesis
    by (cases "run send_message wd w") (simp_all add: G_def K_def F_def)
qed

text \<open>In every session the script can produce, the chat object is one already created.\<close>

lemma reachable_chat_session: "reachable w \<Longrightarrow> chat_session w < chats_started w"
proof (induction rule: reachable.induct)
  case start
  then show ?case by (simp add: initial_world_def)
next
  case (step w send_message wd)
  then show ?case
    using run_chat_session [of send_message wd w] by auto
qed

text \<open>
  C8. In every session the script can produce, each of the three handlers that replace the
  chat object (the accepting branch of Process PDF, Clear PDF Context and Chat, Clear Chat
  Only) leaves \<open>messages\<close> empty and \<open>chat_session\<close> at a chat object that is not the
  previous one and was not created before; and a run of the script that ends with another
  chat object than it began with ends with \<open>messages\<close> empty.
\<close>

theorem fresh_chat_session:
  assumes "reachable w"
  shows "messages (process_pdf_success t w) = []
     \<and> chat_session (process_pdf_success t w) \<noteq> chat_session w
     \<and> chats_started w \<le> chat_session (process_pdf_success t w)
     \<and> messages (clear_pdf_context_and_chat w) = []
     \<and> chat_session (clear_pdf_context_and_chat w) \<noteq> chat_session w
     \<and> chats_started w \<le> chat_session (clear_pdf_context_and_chat w)
     \<and> messages (clear_chat_only w) = []
     \<and> chat_session (clear_chat_only w) \<noteq> chat_session w
     \<and> chats_started w \<le> chat_session (clear_chat_only w)
     \<and> (chat_session (world_of (run send_message wd w)) = chat_session w
        \<or> messages (world_of (run send_message wd w)) = [])"
proof -
  have "chat_session w < chats_started w"
    using assms by (rule reachable_chat_session)
  then show ?thesis
    using run_chat_session [of send_message wd w]
    by (auto simp: process_pdf_success_def clear_pdf_context_and_chat_def
      clear_chat_only_def new_chat_session_def emit_def Let_def)
qed

theorem fresh_chat_session_witness:
  "reachable chatted
   \<and> messages chatted = [(User, lit ''What is the balance?''), (Assistant, lit ''$100'')]
   \<and> chat_session chatted = 0
   \<and> messages (process_pdf_success (lit ''Balance: $100'') chatted) = []
   \<and> chat_session (process_pdf_success (lit ''Balance: $100'') chatted) = 1
   \<and> messages (clear_pdf_context_and_chat chatted) = []
   \<and> chat_session (clear_pdf_context_and_chat chatted) = 1
   \<and> messages (clear_chat_only chatted) = []
   \<and> chat_session (clear_chat_only chatted) = 1
   \<and> messages (world_of (run (replying []) (click_clear_chat None) chatted)) = []"
proof -
  have r: "reachable chatted"
    by (rule sample_sessions_reachable)
  have c: "chat_session (process_pdf_success (lit ''Balance: $100'') chatted) = 1"
    "chat_session (clear_pdf_context_and_chat chatted) = 1"
    "chat_session (clear_chat_only chatted) = 1"
    "chat_session (world_of (run (replying []) (click_clear_chat None) chatted)) = 1"
    by (simp_all add: chatted_eq run_click_clear_chat process_pdf_success_def
        clear_pdf_context_and_chat_def clear_chat_only_def new_chat_session_def emit_def Let_def)
  show ?thesis
    using fresh_chat_session [OF r, of "lit ''Balance: $100''" "replying []" "click_clear_chat None"] r c
    by (simp add: chatted_eq)
qed

end
